theory Spec2Isabelle
  imports Main
begin

section \<open>ArgsForm: whole-form drag and drop\<close>

text \<open>
  Embedding of \<^verbatim>\<open>src/components/SetupTab/ArgsForm/index.jsx\<close>.

  The component owns two pieces of mutable state: the instance field \<^verbatim>\<open>dragDepth\<close>
  and the class list of the form element behind \<^verbatim>\<open>formRef\<close>.  Everything else
  it does is an effect on its surroundings: a call of \<^verbatim>\<open>window.alert\<close>, or a call
  of one of the callbacks it received as props (\<^verbatim>\<open>batchUpdateArgs\<close>,
  \<^verbatim>\<open>updateArgValues\<close>).  The argument set lives in the parent and changes only through
  those callbacks, so the calls are recorded in order.
\<close>

datatype js_thrown = Undefined | Thrown string

datatype outcome = Resolved | Rejected js_thrown

record dropped_file =
  path :: string

record drag_event =
  files :: "dropped_file list"
  defaultPrevented :: bool
  propagationStopped :: bool
  dropEffect :: string

record 'a datastack =
  ds_module_name :: string
  args :: 'a

datatype 'a callback = BatchUpdateArgs 'a | UpdateArgValues string string

record 'a effects =
  alerts :: "string list"
  calls :: "'a callback list"

record args_form =
  dragDepth :: int
  classList :: "string list"

record form_props =
  pyModuleName :: string

text \<open>\<^verbatim>\<open>classList.contains\<close>, \<^verbatim>\<open>classList.add\<close> and \<^verbatim>\<open>classList.remove\<close> of a DOM token list.\<close>

definition classList_contains :: "string list \<Rightarrow> string \<Rightarrow> bool" where
  "classList_contains cl tok = (tok \<in> set cl)"

definition classList_add :: "string list \<Rightarrow> string \<Rightarrow> string list" where
  "classList_add cl tok = (if tok \<in> set cl then cl else cl @ [tok])"

definition classList_remove :: "string list \<Rightarrow> string \<Rightarrow> string list" where
  "classList_remove cl tok = removeAll tok cl"

text \<open>The constructor sets \<^verbatim>\<open>dragDepth = 0\<close>; the form is rendered with
  \<^verbatim>\<open>className="args-form"\<close>.\<close>

definition initial_form :: args_form where
  "initial_form = \<lparr>dragDepth = 0, classList = [''args-form'']\<rparr>"

definition dragging :: "args_form \<Rightarrow> bool" where
  "dragging form = classList_contains (classList form) ''dragging''"

text \<open>
  \<^verbatim>\<open>onArchiveDragDrop\<close> is an \<^verbatim>\<open>async\<close> function: it returns a promise, which is
  \<^const>\<open>Resolved\<close> or \<^const>\<open>Rejected\<close>.  \<^verbatim>\<open>throw alert(msg)\<close> first calls
  \<^verbatim>\<open>alert\<close>, which returns \<^verbatim>\<open>undefined\<close>, and then throws that value.
  \<^verbatim>\<open>fetchDatastackFromFile\<close> is imported from a module outside the component and is
  a parameter; \<^const>\<open>Inl\<close> is a rejected request.
\<close>

definition onArchiveDragDrop ::
  "form_props \<Rightarrow> (string \<Rightarrow> js_thrown + 'a datastack) \<Rightarrow> drag_event \<Rightarrow>
     args_form \<Rightarrow> 'a effects \<Rightarrow> outcome \<times> drag_event \<times> args_form \<times> 'a effects" where
  "onArchiveDragDrop props fetchDatastackFromFile event form fx =
     (let event1 = event\<lparr>defaultPrevented := True, propagationStopped := True\<rparr>;
          form1 = form\<lparr>dragDepth := 0,
                        classList := classList_remove (classList form) ''dragging''\<rparr>;
          fileList = files event
      in if length fileList \<noteq> 1
         then (Rejected Undefined, event1, form1,
               fx\<lparr>alerts := alerts fx @ [''only drop one file at a time.'']\<rparr>)
         else (case fetchDatastackFromFile (path (hd fileList)) of
                 Inl reason \<Rightarrow> (Rejected reason, event1, form1, fx)
               | Inr datastack \<Rightarrow>
                   if ds_module_name datastack = pyModuleName props
                   then (Resolved, event1, form1,
                         fx\<lparr>calls := calls fx @ [BatchUpdateArgs (args datastack)]\<rparr>)
                   else (Rejected Undefined, event1, form1,
                         fx\<lparr>alerts := alerts fx @
                            [''Parameter/Log file for '' @ ds_module_name datastack @
                             '' does not match this model: '' @ pyModuleName props]\<rparr>)))"

definition dragEnterHandler :: "drag_event \<Rightarrow> args_form \<Rightarrow> drag_event \<times> args_form" where
  "dragEnterHandler event form =
     (let event1 = event\<lparr>defaultPrevented := True, propagationStopped := True,
                          dropEffect := ''move''\<rparr>;
          form1 = form\<lparr>dragDepth := dragDepth form + 1\<rparr>
      in if \<not> classList_contains (classList form1) ''dragging''
         then (event1, form1\<lparr>classList := classList_add (classList form1) ''dragging''\<rparr>)
         else (event1, form1))"

definition dragLeaveHandler :: "drag_event \<Rightarrow> args_form \<Rightarrow> drag_event \<times> args_form" where
  "dragLeaveHandler event form =
     (let event1 = event\<lparr>defaultPrevented := True, propagationStopped := True\<rparr>;
          form1 = form\<lparr>dragDepth := dragDepth form - 1\<rparr>
      in if dragDepth form1 \<le> 0
         then (event1, form1\<lparr>classList := classList_remove (classList form1) ''dragging''\<rparr>)
         else (event1, form1))"

text \<open>The per-field drop handler: the first dropped file's path becomes the field's
  value; an empty file list is ignored.  It does not touch the drag state.\<close>

definition inputDropHandler ::
  "string \<Rightarrow> drag_event \<Rightarrow> 'a effects \<Rightarrow> drag_event \<times> 'a effects" where
  "inputDropHandler name event fx =
     (let event1 = event\<lparr>defaultPrevented := True, propagationStopped := True\<rparr>;
          fileList = files event
      in if length fileList \<noteq> 0
         then (event1, fx\<lparr>calls := calls fx @ [UpdateArgValues name (path (hd fileList))]\<rparr>)
         else (event1, fx))"

subsection \<open>The form as a machine driven by drag events\<close>

datatype form_event = DragEnter drag_event | DragLeave drag_event | Drop drag_event

fun form_step ::
  "form_props \<Rightarrow> (string \<Rightarrow> js_thrown + 'a datastack) \<Rightarrow>
     args_form \<times> 'a effects \<Rightarrow> form_event \<Rightarrow> args_form \<times> 'a effects" where
  "form_step props fetch (form, fx) (DragEnter e) = (snd (dragEnterHandler e form), fx)"
| "form_step props fetch (form, fx) (DragLeave e) = (snd (dragLeaveHandler e form), fx)"
| "form_step props fetch (form, fx) (Drop e) = snd (snd (onArchiveDragDrop props fetch e form fx))"

definition form_run ::
  "form_props \<Rightarrow> (string \<Rightarrow> js_thrown + 'a datastack) \<Rightarrow>
     form_event list \<Rightarrow> args_form \<times> 'a effects \<Rightarrow> args_form \<times> 'a effects" where
  "form_run props fetch es s = foldl (form_step props fetch) s es"

text \<open>An event sequence is nested when no drag-leave arrives while the counter (starting
  from the given depth) is not positive.\<close>

fun nested :: "int \<Rightarrow> form_event list \<Rightarrow> bool" where
  "nested d [] = True"
| "nested d (DragEnter e # es) = nested (d + 1) es"
| "nested d (DragLeave e # es) = (0 < d \<and> nested (d - 1) es)"
| "nested d (Drop e # es) = nested 0 es"

text \<open>Concrete values used to evaluate the handlers.\<close>

definition plain_event :: "dropped_file list \<Rightarrow> drag_event" where
  "plain_event fs = \<lparr>files = fs, defaultPrevented = False, propagationStopped = False,
                     dropEffect = ''none''\<rparr>"

definition carbon_props :: form_props where
  "carbon_props = \<lparr>pyModuleName = ''natcap.invest.carbon''\<rparr>"

definition no_effects :: "'a effects" where
  "no_effects = \<lparr>alerts = [], calls = []\<rparr>"

definition sample_fetch :: "string \<Rightarrow> js_thrown + (string \<times> string) list datastack" where
  "sample_fetch p =
     (if p = ''carbon.json''
      then Inr \<lparr>ds_module_name = ''natcap.invest.carbon'', args = [(''workspace_dir'', ''out'')]\<rparr>
      else if p = ''pollination.json''
      then Inr \<lparr>ds_module_name = ''natcap.invest.pollination'', args = [(''workspace_dir'', ''p'')]\<rparr>
      else Inl (Thrown ''not a datastack''))"


section \<open>LogTab: tailing and displaying a log file\<close>

text \<open>
  Embedding of \<^verbatim>\<open>src/renderer/components/LogTab/index.jsx\<close>.
\<close>

subsection \<open>Line classification\<close>

record html_options =
  allowedTags :: "string list"
  allowedAttributes :: "(string \<times> string list) list"

definition LOG_TEXT_TAG :: string where
  "LOG_TEXT_TAG = ''span''"

definition ALLOWED_HTML_OPTIONS :: html_options where
  "ALLOWED_HTML_OPTIONS =
     \<lparr>allowedTags = [LOG_TEXT_TAG], allowedAttributes = [(LOG_TEXT_TAG, [''class''])]\<rparr>"

text \<open>
  The two regular expressions of the component, as the source writes them: the constant
  \<^verbatim>\<open>LOG_ERROR_REGEX\<close> and \<^verbatim>\<open>new RegExp(this.props.pyModuleName)\<close>.  The regular
  expression engine (\<^verbatim>\<open>pattern.test(line)\<close>) and the sanitizer
  (\<^verbatim>\<open>sanitizeHtml\<close>, package sanitize-html) are not code of the repository and are
  parameters of the model.
\<close>

datatype regexp = LOG_ERROR_REGEX | RegExp string

text \<open>The template literal
  \<^verbatim>\<open><${LOG_TEXT_TAG} class="${cls}">${line}</${LOG_TEXT_TAG}>\<close>; character \<open>0x22\<close> is
  the double quote.\<close>

definition span_markup :: "string \<Rightarrow> string \<Rightarrow> string" where
  "span_markup cls line =
     ''<'' @ LOG_TEXT_TAG @ '' class='' @ [CHR 0x22] @ cls @ [CHR 0x22] @ ''>'' @ line @
     ''</'' @ LOG_TEXT_TAG @ ''>''"

text \<open>\<^verbatim>\<open>patterns\<close> is the list \<^verbatim>\<open>Object.entries(patterns)\<close>: the properties of the
  object in insertion order.  The loop returns at the first pattern that matches.\<close>

fun markupLine ::
  "(string \<Rightarrow> html_options \<Rightarrow> 'h) \<Rightarrow> (regexp \<Rightarrow> string \<Rightarrow> bool) \<Rightarrow>
     string \<Rightarrow> (string \<times> regexp) list \<Rightarrow> 'h" where
  "markupLine sanitizeHtml test line [] = sanitizeHtml line ALLOWED_HTML_OPTIONS"
| "markupLine sanitizeHtml test line ((cls, pattern) # patterns) =
     (if test pattern line
      then sanitizeHtml (span_markup cls line) ALLOWED_HTML_OPTIONS
      else markupLine sanitizeHtml test line patterns)"

text \<open>\<^verbatim>\<open>this.logPatterns\<close>, built once in the constructor from the props of that moment.\<close>

definition logPatterns_of :: "string \<Rightarrow> (string \<times> regexp) list" where
  "logPatterns_of pyModule =
     [(''invest-log-error'', LOG_ERROR_REGEX), (''invest-log-primary'', RegExp pyModule)]"

subsection \<open>The tail package, the logger and the timer queue\<close>

record js_error =
  message :: string
  stack :: string

datatype log_entry = Debug string | Error string

record tail_options =
  fromBeginning :: bool
  useWatchFile :: bool
  fsWatchOptions :: "(bool \<times> nat) option"

text \<open>
  The value of the variable \<^verbatim>\<open>markup\<close> that the line listener closes over.
  \<^verbatim>\<open>Object.assign('', x)\<close> converts its target \<^verbatim>\<open>''\<close> to a String object whose
  string data is empty, and copies the enumerable own properties of \<^verbatim>\<open>x\<close> (the indexed
  characters when \<^verbatim>\<open>x\<close> is a string, nothing when it is \<^verbatim>\<open>null\<close>) onto that
  object as ordinary properties.  \<^verbatim>\<open>markup += s\<close> converts the object to its primitive
  string data and concatenates.
\<close>

datatype js_string = Primitive string | StringObject string "(nat \<times> char) list"

definition Object_assign_empty :: "string option \<Rightarrow> js_string" where
  "Object_assign_empty source =
     StringObject [] (case source of None \<Rightarrow> [] | Some s \<Rightarrow> zip [0..<length s] s)"

fun toPrimitive :: "js_string \<Rightarrow> string" where
  "toPrimitive (Primitive s) = s"
| "toPrimitive (StringObject stringData properties) = stringData"

definition plus_assign :: "js_string \<Rightarrow> string \<Rightarrow> js_string" where
  "plus_assign m s = Primitive (toPrimitive m @ s)"

text \<open>
  A \<^verbatim>\<open>Tail\<close> object of the tail package.  \<^verbatim>\<open>watching\<close> is set by the
  constructor, which starts the watch, and cleared by \<^verbatim>\<open>unwatch()\<close>;
  \<^verbatim>\<open>unwatchCalls\<close> counts the calls of \<^verbatim>\<open>unwatch()\<close> on the object;
  \<^verbatim>\<open>markup\<close> is the variable captured by the \<^verbatim>\<open>line\<close> listener that
  \<^verbatim>\<open>tailLogfile\<close> registers on the object.
\<close>

record tail_object =
  filename :: string
  options :: tail_options
  watching :: bool
  unwatchCalls :: nat
  markup :: js_string

text \<open>What the component reads from outside itself.  \<^verbatim>\<open>tailThrows\<close> says for which
  files \<^verbatim>\<open>new Tail(file, options)\<close> throws, \<^verbatim>\<open>unwatchThrows\<close> for which objects
  \<^verbatim>\<open>unwatch()\<close> throws.\<close>

record env =
  platform :: string
  EOL :: string
  sanitizeHtml :: "string \<Rightarrow> html_options \<Rightarrow> string"
  test :: "regexp \<Rightarrow> string \<Rightarrow> bool"
  tailThrows :: "string \<Rightarrow> js_error option"
  unwatchThrows :: "tail_object \<Rightarrow> js_error option"

definition new_Tail :: "env \<Rightarrow> string \<Rightarrow> tail_options \<Rightarrow> js_error + tail_object" where
  "new_Tail ev file opts =
     (case tailThrows ev file of
        Some error \<Rightarrow> Inl error
      | None \<Rightarrow> Inr \<lparr>filename = file, options = opts, watching = True, unwatchCalls = 0,
                     markup = Primitive []\<rparr>)"

definition Tail_unwatch :: "env \<Rightarrow> tail_object \<Rightarrow> js_error option \<times> tail_object" where
  "Tail_unwatch ev t =
     (case unwatchThrows ev t of
        Some error \<Rightarrow> (Some error, t\<lparr>unwatchCalls := unwatchCalls t + 1\<rparr>)
      | None \<Rightarrow> (None, t\<lparr>unwatchCalls := unwatchCalls t + 1, watching := False\<rparr>))"

text \<open>What the component acts on outside itself: the \<^verbatim>\<open>Tail\<close> objects created so far
  (addresses \<open>0 ..< allocated\<close> of the store), the calls of the logger, and the number of
  pending \<^verbatim>\<open>setTimeout(() => this.unwatchLogfile(), 3000)\<close> callbacks.\<close>

record world =
  store :: "nat \<Rightarrow> tail_object"
  allocated :: nat
  logged :: "log_entry list"
  timers :: nat

record logtab_props =
  jobStatus :: "string option"
  logfile :: "string option"
  finalTraceback :: "string option"
  logPyModuleName :: string
  sidebarFooterElementId :: string

text \<open>The component instance: \<^verbatim>\<open>this.state.logdata\<close>, \<^verbatim>\<open>this.tail\<close> (a reference
  into the store, or \<^verbatim>\<open>null\<close>) and \<^verbatim>\<open>this.logPatterns\<close>.\<close>

record logtab =
  logdata :: "string option"
  tail :: "nat option"
  logPatterns :: "(string \<times> regexp) list"

definition constructor :: "logtab_props \<Rightarrow> logtab" where
  "constructor props =
     \<lparr>logdata = None, tail = None, logPatterns = logPatterns_of (logPyModuleName props)\<rparr>"

text \<open>The options of the two branches on \<^verbatim>\<open>process.platform\<close> (the logger option
  left out).\<close>

definition tail_options_for :: "string \<Rightarrow> tail_options" where
  "tail_options_for pf =
     (if pf = ''win32''
      then \<lparr>fromBeginning = True, useWatchFile = True, fsWatchOptions = Some (True, 250)\<rparr>
      else \<lparr>fromBeginning = True, useWatchFile = False, fsWatchOptions = None\<rparr>)"

text \<open>The body of the \<^verbatim>\<open>try\<close> block of \<^verbatim>\<open>tailLogfile\<close>: \<^const>\<open>Inl\<close> is the
  exception it throws.  The new object is stored at a fresh address, \<^verbatim>\<open>this.tail\<close> is
  overwritten with that address, and the listener's variable is initialised.\<close>

definition tailLogfile_try ::
  "env \<Rightarrow> string \<Rightarrow> logtab \<times> world \<Rightarrow> js_error + (logtab \<times> world)" where
  "tailLogfile_try ev file cw =
     (case cw of (c, w) \<Rightarrow>
        (case new_Tail ev file (tail_options_for (platform ev)) of
           Inl error \<Rightarrow> Inl error
         | Inr t \<Rightarrow>
             Inr (c\<lparr>tail := Some (allocated w)\<rparr>,
                  w\<lparr>store := (store w)(allocated w :=
                                 t\<lparr>markup := Object_assign_empty (logdata c)\<rparr>),
                     allocated := allocated w + 1\<rparr>)))"

text \<open>\<^verbatim>\<open>tailLogfile\<close>: the \<^verbatim>\<open>try\<close> block and its \<^verbatim>\<open>catch\<close> clause.\<close>

definition tailLogfile :: "env \<Rightarrow> string \<Rightarrow> logtab \<times> world \<Rightarrow> logtab \<times> world" where
  "tailLogfile ev file cw =
     (case tailLogfile_try ev file cw of
        Inr cw' \<Rightarrow> cw'
      | Inl error \<Rightarrow>
          (case cw of (c, w) \<Rightarrow>
             (c\<lparr>logdata := Some (''Logfile is missing: '' @ EOL ev @ file)\<rparr>,
              w\<lparr>logged := logged w @
                   [Error (''Not able to read '' @ file), Error (stack error)]\<rparr>)))"

text \<open>The listener of the \<^verbatim>\<open>line\<close> event of the \<^verbatim>\<open>Tail\<close> object at address
  \<open>h\<close>, run on the delivered text \<open>data\<close>.\<close>

definition onLine :: "env \<Rightarrow> nat \<Rightarrow> string \<Rightarrow> logtab \<times> world \<Rightarrow> logtab \<times> world" where
  "onLine ev h data cw =
     (case cw of (c, w) \<Rightarrow>
        (let line = data @ EOL ev;
             m = plus_assign (markup (store w h))
                   (markupLine (sanitizeHtml ev) (test ev) line (logPatterns c))
         in (c\<lparr>logdata := Some (toPrimitive m)\<rparr>,
             w\<lparr>store := (store w)(h := (store w h)\<lparr>markup := m\<rparr>)\<rparr>)))"

text \<open>The listener of the \<^verbatim>\<open>error\<close> event.\<close>

definition onError :: "js_error \<Rightarrow> logtab \<times> world \<Rightarrow> logtab \<times> world" where
  "onError error cw =
     (case cw of (c, w) \<Rightarrow> (c, w\<lparr>logged := logged w @ [Error (message error)]\<rparr>))"

text \<open>The body of the \<^verbatim>\<open>try\<close> block of \<^verbatim>\<open>unwatchLogfile\<close>, run on the object at
  address \<open>h\<close>: the debug message, then \<^verbatim>\<open>this.tail.unwatch()\<close>.  The result is the
  exception the block ends with, if any, and the world it leaves.\<close>

definition unwatchLogfile_try :: "env \<Rightarrow> nat \<Rightarrow> world \<Rightarrow> js_error option \<times> world" where
  "unwatchLogfile_try ev h w =
     (let w1 = w\<lparr>logged := logged w @
                   [Debug (''unwatching file: '' @ filename (store w h))]\<rparr>
      in case Tail_unwatch ev (store w1 h) of
           (thrown, t) \<Rightarrow> (thrown, w1\<lparr>store := (store w1)(h := t)\<rparr>))"

text \<open>\<^verbatim>\<open>unwatchLogfile\<close>: nothing when \<^verbatim>\<open>this.tail\<close> is \<^verbatim>\<open>null\<close>; otherwise
  the \<^verbatim>\<open>try\<close> block, and the \<^verbatim>\<open>catch\<close> clause that logs the stack of its
  exception.  \<^verbatim>\<open>this.tail\<close> is not assigned.\<close>

definition unwatchLogfile :: "env \<Rightarrow> logtab \<times> world \<Rightarrow> logtab \<times> world" where
  "unwatchLogfile ev cw =
     (case cw of (c, w) \<Rightarrow>
        (case tail c of
           None \<Rightarrow> (c, w)
         | Some h \<Rightarrow>
             (case unwatchLogfile_try ev h w of
                (None, w2) \<Rightarrow> (c, w2)
              | (Some error, w2) \<Rightarrow>
                  (c, w2\<lparr>logged := logged w2 @ [Error (stack error)]\<rparr>))))"

text \<open>\<^verbatim>\<open>if (logfile)\<close>: \<^verbatim>\<open>undefined\<close> and the empty string are falsy.\<close>

fun truthy :: "string option \<Rightarrow> bool" where
  "truthy None = False"
| "truthy (Some s) = (s \<noteq> [])"

definition componentDidMount :: "env \<Rightarrow> logtab_props \<Rightarrow> logtab \<times> world \<Rightarrow> logtab \<times> world" where
  "componentDidMount ev props cw =
     (case logfile props of
        Some file \<Rightarrow> if truthy (Some file) then tailLogfile ev file cw else cw
      | None \<Rightarrow> cw)"

definition setTimeout_unwatch :: "logtab \<times> world \<Rightarrow> logtab \<times> world" where
  "setTimeout_unwatch cw = (case cw of (c, w) \<Rightarrow> (c, w\<lparr>timers := timers w + 1\<rparr>))"

definition componentDidUpdate ::
  "env \<Rightarrow> logtab_props \<Rightarrow> logtab_props \<Rightarrow> logtab \<times> world \<Rightarrow> logtab \<times> world" where
  "componentDidUpdate ev prevProps props cw =
     (let cw1 = (case logfile props of
                   Some file \<Rightarrow>
                     if truthy (Some file) \<and> logfile prevProps \<noteq> logfile props
                     then tailLogfile ev file cw else cw
                 | None \<Rightarrow> cw)
      in if jobStatus props \<noteq> Some ''running'' \<and> jobStatus prevProps \<noteq> jobStatus props
         then setTimeout_unwatch cw1
         else cw1)"

definition componentWillUnmount :: "env \<Rightarrow> logtab \<times> world \<Rightarrow> logtab \<times> world" where
  "componentWillUnmount ev cw = unwatchLogfile ev cw"

text \<open>A pending timer fires: its callback runs \<^verbatim>\<open>this.unwatchLogfile()\<close>.\<close>

definition timerFires :: "env \<Rightarrow> logtab \<times> world \<Rightarrow> logtab \<times> world" where
  "timerFires ev cw =
     (case cw of (c, w) \<Rightarrow>
        if timers w = 0 then cw else unwatchLogfile ev (c, w\<lparr>timers := timers w - 1\<rparr>))"

text \<open>The addresses of the \<^verbatim>\<open>Tail\<close> objects that are watching their file.\<close>

definition activeTails :: "world \<Rightarrow> nat list" where
  "activeTails w = filter (\<lambda>h. watching (store w h)) [0..<allocated w]"

definition deliver :: "env \<Rightarrow> nat \<Rightarrow> string list \<Rightarrow> logtab \<times> world \<Rightarrow> logtab \<times> world" where
  "deliver ev h ds cw = foldl (\<lambda>s d. onLine ev h d s) cw ds"

subsection \<open>The status banner\<close>

datatype handler = HandleOpenWorkspace | TerminateInvestProcess

datatype element =
    Text string
  | Button string handler bool string
  | Alert string "element list"

record rendered =
  logDisplay :: "string option"
  portalElId :: string
  banner :: "element option"

definition WorkspaceButton :: "logtab_props \<Rightarrow> element" where
  "WorkspaceButton props =
     Button ''outline-dark'' HandleOpenWorkspace (jobStatus props = Some ''running'')
       ''Open Workspace''"

definition CancelButton :: element where
  "CancelButton = Button ''outline-dark'' TerminateInvestProcess False ''Cancel Run''"

definition render :: "logtab_props \<Rightarrow> logtab \<Rightarrow> rendered" where
  "render props c =
     (let ModelStatusAlert =
            (if jobStatus props = Some ''running''
             then Some (Alert ''secondary'' [CancelButton])
             else if jobStatus props = Some ''error''
             then Some (Alert ''danger''
                    ((case finalTraceback props of None \<Rightarrow> [] | Some t \<Rightarrow> [Text t]) @
                     [WorkspaceButton props]))
             else if jobStatus props = Some ''success''
             then Some (Alert ''success'' [Text ''Model Complete'', WorkspaceButton props])
             else None)
      in \<lparr>logDisplay = logdata c, portalElId = sidebarFooterElementId props,
          banner = ModelStatusAlert\<rparr>)"

subsection \<open>Concrete values used to evaluate the component\<close>

text \<open>A stand-in for the regular expression engine and for the sanitizer, enough to run
  the component on the lines used below: the error pattern is taken to match a line that
  contains \<^verbatim>\<open>ERROR\<close>, a \<^verbatim>\<open>RegExp\<close> to match a line that contains its source text, and
  the sanitizer to return markup unchanged.\<close>

fun contains :: "string \<Rightarrow> string \<Rightarrow> bool" where
  "contains p [] = (p = [])"
| "contains p (c # cs) = (take (length p) (c # cs) = p \<or> contains p cs)"

fun stub_test :: "regexp \<Rightarrow> string \<Rightarrow> bool" where
  "stub_test LOG_ERROR_REGEX line = contains ''ERROR'' line"
| "stub_test (RegExp source) line = contains source line"

definition linux_env :: env where
  "linux_env =
     \<lparr>platform = ''linux'', EOL = [CHR 0x0A], sanitizeHtml = (\<lambda>m opts. m), test = stub_test,
      tailThrows = (\<lambda>file. if file = ''missing.log''
                            then Some \<lparr>message = ''ENOENT'', stack = ''Error: ENOENT''\<rparr>
                            else None),
      unwatchThrows = (\<lambda>t. None)\<rparr>"

text \<open>An environment in which \<^verbatim>\<open>unwatch()\<close> throws on an object that is not
  watching.\<close>

definition strict_env :: env where
  "strict_env =
     linux_env\<lparr>unwatchThrows :=
       (\<lambda>t. if watching t then None
            else Some \<lparr>message = ''not watching'', stack = ''Error: not watching''\<rparr>)\<rparr>"

text \<open>A stand-in for a sanitizer that lets no markup through: it escapes every angle
  bracket.  Its outputs hold no angle bracket.\<close>

fun escaping_sanitizer :: "string \<Rightarrow> html_options \<Rightarrow> string" where
  "escaping_sanitizer [] opts = []"
| "escaping_sanitizer (c # cs) opts =
     (if c = CHR ''<'' then ''&lt;'' else if c = CHR ''>'' then ''&gt;'' else [c]) @
     escaping_sanitizer cs opts"

definition no_angle_bracket :: "string \<Rightarrow> bool" where
  "no_angle_bracket s = (CHR ''<'' \<notin> set s \<and> CHR ''>'' \<notin> set s)"

definition empty_world :: world where
  "empty_world =
     \<lparr>store = (\<lambda>a. \<lparr>filename = [], options = tail_options_for [], watching = False,
                     unwatchCalls = 0, markup = Primitive []\<rparr>),
      allocated = 0, logged = [], timers = 0\<rparr>"

definition run_props :: "string \<Rightarrow> string \<Rightarrow> logtab_props" where
  "run_props status file =
     \<lparr>jobStatus = Some status, logfile = Some file, finalTraceback = None,
      logPyModuleName = ''natcap.invest.carbon'', sidebarFooterElementId = ''footer''\<rparr>"

text \<open>A component that was mounted on \<^verbatim>\<open>run1.log\<close> while the job was running and
  has seen the job status change to \<^verbatim>\<open>success\<close>: its tail is watching and the delayed
  teardown is pending.\<close>

definition finished_run :: "logtab \<times> world" where
  "finished_run =
     (let props1 = run_props ''running'' ''run1.log'';
          props2 = run_props ''success'' ''run1.log''
      in componentDidUpdate strict_env props1 props2
           (componentDidMount strict_env props1 (constructor props1, empty_world)))"

section \<open>Properties of ArgsForm\<close>

lemmas handler_defs = onArchiveDragDrop_def dragEnterHandler_def dragLeaveHandler_def
  classList_contains_def classList_add_def classList_remove_def dragging_def

text \<open>
  Claim C2.  When exactly one file is dropped on the form and the request for its
  datastack succeeds, the handler compares the declared module name with the form's
  \<^verbatim>\<open>pyModuleName\<close>.  If they are equal the promise resolves, no alert is raised and
  the only callback invoked is one \<^verbatim>\<open>batchUpdateArgs\<close> with the whole \<^verbatim>\<open>args\<close> of
  the file.  If they differ the promise is rejected, no callback is invoked (so the
  argument set, which changes only through the callbacks, is unchanged) and one alert is
  raised whose text names the file's module and the form's module.
\<close>

theorem onArchiveDragDrop_one_file:
  assumes "files event = [f]" and "fetch (path f) = Inr datastack"
    and "onArchiveDragDrop props fetch event form fx = (out, event', form', fx')"
  shows "if ds_module_name datastack = pyModuleName props
         then out = Resolved \<and> alerts fx' = alerts fx \<and>
              calls fx' = calls fx @ [BatchUpdateArgs (args datastack)]
         else out = Rejected Undefined \<and> calls fx' = calls fx \<and>
              alerts fx' = alerts fx @
                [''Parameter/Log file for '' @ ds_module_name datastack @
                 '' does not match this model: '' @ pyModuleName props]"
  using assms by (auto simp: onArchiveDragDrop_def Let_def)

theorem onArchiveDragDrop_one_file_witness:
  "(case onArchiveDragDrop carbon_props sample_fetch (plain_event [\<lparr>path = ''carbon.json''\<rparr>])
           initial_form no_effects of
      (out, event', form', fx') \<Rightarrow>
        out = Resolved \<and> alerts fx' = [] \<and>
        calls fx' = [BatchUpdateArgs [(''workspace_dir'', ''out'')]]) \<and>
   (case onArchiveDragDrop carbon_props sample_fetch (plain_event [\<lparr>path = ''pollination.json''\<rparr>])
           initial_form no_effects of
      (out, event', form', fx') \<Rightarrow>
        out = Rejected Undefined \<and> calls fx' = [] \<and>
        alerts fx' = [''Parameter/Log file for natcap.invest.pollination does not match this model: natcap.invest.carbon''])"
proof -
  obtain o1 e1 f1 x1 where r1:
    "onArchiveDragDrop carbon_props sample_fetch (plain_event [\<lparr>path = ''carbon.json''\<rparr>])
       initial_form no_effects = (o1, e1, f1, x1)"
    using prod_cases4 by blast
  obtain o2 e2 f2 x2 where r2:
    "onArchiveDragDrop carbon_props sample_fetch (plain_event [\<lparr>path = ''pollination.json''\<rparr>])
       initial_form no_effects = (o2, e2, f2, x2)"
    using prod_cases4 by blast
  have a1: "files (plain_event [\<lparr>path = ''carbon.json''\<rparr>]) = [\<lparr>path = ''carbon.json''\<rparr>]"
    by (simp add: plain_event_def)
  have a2: "files (plain_event [\<lparr>path = ''pollination.json''\<rparr>]) = [\<lparr>path = ''pollination.json''\<rparr>]"
    by (simp add: plain_event_def)
  have b1: "sample_fetch (path \<lparr>path = ''carbon.json''\<rparr>) =
      Inr \<lparr>ds_module_name = ''natcap.invest.carbon'', args = [(''workspace_dir'', ''out'')]\<rparr>"
    by (simp add: sample_fetch_def)
  have b2: "sample_fetch (path \<lparr>path = ''pollination.json''\<rparr>) =
      Inr \<lparr>ds_module_name = ''natcap.invest.pollination'', args = [(''workspace_dir'', ''p'')]\<rparr>"
    by (simp add: sample_fetch_def)
  show ?thesis
    using onArchiveDragDrop_one_file[OF a1 b1 r1] onArchiveDragDrop_one_file[OF a2 b2 r2]
    unfolding r1 r2 by (simp add: carbon_props_def no_effects_def)
qed

text \<open>
  Claim C7.  When more than one file is dropped on the form, the handler raises the alert
  \<^verbatim>\<open>only drop one file at a time.\<close>, rejects, invokes no callback, and never asks for a
  datastack: none of the files is used, the result is the same whatever the parser would
  return.
\<close>

theorem onArchiveDragDrop_many_files:
  assumes "1 < length (files event)"
  shows "onArchiveDragDrop props fetch event form fx =
           (Rejected Undefined,
            event\<lparr>defaultPrevented := True, propagationStopped := True\<rparr>,
            form\<lparr>dragDepth := 0, classList := classList_remove (classList form) ''dragging''\<rparr>,
            fx\<lparr>alerts := alerts fx @ [''only drop one file at a time.'']\<rparr>) \<and>
         calls (snd (snd (snd (onArchiveDragDrop props fetch event form fx)))) = calls fx \<and>
         onArchiveDragDrop props fetch' event form fx = onArchiveDragDrop props fetch event form fx"
  using assms by (simp add: onArchiveDragDrop_def Let_def)

theorem onArchiveDragDrop_many_files_witness:
  "onArchiveDragDrop carbon_props sample_fetch
     (plain_event [\<lparr>path = ''carbon.json''\<rparr>, \<lparr>path = ''pollination.json''\<rparr>]) initial_form no_effects =
   (Rejected Undefined,
    (plain_event [\<lparr>path = ''carbon.json''\<rparr>, \<lparr>path = ''pollination.json''\<rparr>])
       \<lparr>defaultPrevented := True, propagationStopped := True\<rparr>,
    initial_form,
    \<lparr>alerts = [''only drop one file at a time.''], calls = []\<rparr>)"
proof -
  have h: "1 < length (files (plain_event [\<lparr>path = ''carbon.json''\<rparr>, \<lparr>path = ''pollination.json''\<rparr>]))"
    by (simp add: plain_event_def)
  show ?thesis
    using onArchiveDragDrop_many_files[OF h, of carbon_props sample_fetch initial_form no_effects sample_fetch]
    by (simp add: initial_form_def no_effects_def classList_remove_def)
qed

text \<open>
  Claim C10.  A drop that carries no file is handled as a drop of several files is: the
  same alert, a rejected promise, no request for a datastack and no callback.  The
  one-file alert is raised exactly for the file lists whose length is not one.
\<close>

theorem onArchiveDragDrop_no_file:
  "(files event = [] \<longrightarrow>
      onArchiveDragDrop props fetch event form fx =
        (Rejected Undefined,
         event\<lparr>defaultPrevented := True, propagationStopped := True\<rparr>,
         form\<lparr>dragDepth := 0, classList := classList_remove (classList form) ''dragging''\<rparr>,
         fx\<lparr>alerts := alerts fx @ [''only drop one file at a time.'']\<rparr>)) \<and>
   (alerts (snd (snd (snd (onArchiveDragDrop props fetch event form fx)))) =
      alerts fx @ [''only drop one file at a time.'']
    \<longleftrightarrow> length (files event) \<noteq> 1)"
  by (auto simp: onArchiveDragDrop_def Let_def split: sum.splits)

theorem onArchiveDragDrop_no_file_witness:
  "onArchiveDragDrop carbon_props sample_fetch (plain_event []) initial_form no_effects =
   (Rejected Undefined,
    (plain_event [])\<lparr>defaultPrevented := True, propagationStopped := True\<rparr>,
    initial_form,
    \<lparr>alerts = [''only drop one file at a time.''], calls = []\<rparr>)"
proof -
  have h: "files (plain_event []) = []" by (simp add: plain_event_def)
  show ?thesis
    using onArchiveDragDrop_no_file[of "plain_event []" carbon_props sample_fetch initial_form no_effects] h
    by (simp add: initial_form_def no_effects_def classList_remove_def)
qed

subsection \<open>The drag-depth counter and the indicator\<close>

lemma dragEnterHandler_form:
  "dragDepth (snd (dragEnterHandler e form)) = dragDepth form + 1 \<and>
   dragging (snd (dragEnterHandler e form))"
  by (simp add: handler_defs Let_def)

lemma dragLeaveHandler_form:
  "dragDepth (snd (dragLeaveHandler e form)) = dragDepth form - 1 \<and>
   (dragging (snd (dragLeaveHandler e form)) \<longleftrightarrow> dragging form \<and> 1 < dragDepth form)"
  by (auto simp add: handler_defs Let_def)

lemma onArchiveDragDrop_form:
  "dragDepth (fst (snd (snd (onArchiveDragDrop props fetch e form fx)))) = 0 \<and>
   \<not> dragging (fst (snd (snd (onArchiveDragDrop props fetch e form fx))))"
  by (simp add: handler_defs Let_def split: sum.splits)

lemma form_run_Cons:
  "form_run props fetch (e # es) s = form_run props fetch es (form_step props fetch s e)"
  by (simp add: form_run_def)

lemma nested_invariant:
  "nested (dragDepth form) es \<Longrightarrow> 0 \<le> dragDepth form \<Longrightarrow>
   (dragging form \<longleftrightarrow> 0 < dragDepth form) \<Longrightarrow>
   (dragging (fst (form_run props fetch es (form, fx))) \<longleftrightarrow>
      0 < dragDepth (fst (form_run props fetch es (form, fx))))"
proof (induction es arbitrary: form fx)
  case Nil
  then show ?case by (simp add: form_run_def)
next
  case (Cons e es)
  show ?case
  proof (cases e)
    case (DragEnter x)
    let ?f = "snd (dragEnterHandler x form)"
    have "nested (dragDepth ?f) es" "0 \<le> dragDepth ?f" "dragging ?f \<longleftrightarrow> 0 < dragDepth ?f"
      using Cons.prems DragEnter dragEnterHandler_form[of x form] by auto
    then show ?thesis
      using Cons.IH[of ?f fx] DragEnter by (simp add: form_run_Cons)
  next
    case (DragLeave x)
    let ?f = "snd (dragLeaveHandler x form)"
    have "nested (dragDepth ?f) es" "0 \<le> dragDepth ?f" "dragging ?f \<longleftrightarrow> 0 < dragDepth ?f"
      using Cons.prems DragLeave dragLeaveHandler_form[of x form] by auto
    then show ?thesis
      using Cons.IH[of ?f fx] DragLeave by (simp add: form_run_Cons)
  next
    case (Drop x)
    let ?f = "fst (snd (snd (onArchiveDragDrop props fetch x form fx)))"
    let ?x = "snd (snd (snd (onArchiveDragDrop props fetch x form fx)))"
    have "nested (dragDepth ?f) es" "0 \<le> dragDepth ?f" "dragging ?f \<longleftrightarrow> 0 < dragDepth ?f"
      using Cons.prems Drop onArchiveDragDrop_form[of props fetch x form fx] by auto
    then show ?thesis
      using Cons.IH[of ?f ?x] Drop by (simp add: form_run_Cons)
  qed
qed

text \<open>
  Claim C8, as the code has it.  Every drag-enter adds one to the counter and leaves the
  indicator present; every drag-leave subtracts one, without a lower bound, and removes the
  indicator when the new value is at most zero; every whole-form drop sets the counter to
  zero and removes the indicator.  From the initial form, along every event sequence in
  which no drag-leave arrives while the counter is not positive, the indicator is present
  exactly when the counter is positive.  After drag-enter, drag-enter, drag-leave the
  indicator is present at depth 1, and one more drag-leave, or a drop, removes it.
\<close>

theorem drag_indicator_nested:
  "dragDepth (snd (dragEnterHandler e form)) = dragDepth form + 1 \<and>
   dragging (snd (dragEnterHandler e form)) \<and>
   dragDepth (snd (dragLeaveHandler e form)) = dragDepth form - 1 \<and>
   (dragging (snd (dragLeaveHandler e form)) \<longleftrightarrow> dragging form \<and> 1 < dragDepth form) \<and>
   dragDepth (fst (snd (snd (onArchiveDragDrop props fetch e form fx)))) = 0 \<and>
   \<not> dragging (fst (snd (snd (onArchiveDragDrop props fetch e form fx)))) \<and>
   (nested 0 es \<longrightarrow>
      (dragging (fst (form_run props fetch es (initial_form, fx))) \<longleftrightarrow>
         0 < dragDepth (fst (form_run props fetch es (initial_form, fx))))) \<and>
   (let form3 = fst (form_run props fetch [DragEnter e1, DragEnter e2, DragLeave e3]
                       (initial_form, fx))
    in dragging form3 \<and> dragDepth form3 = 1 \<and>
       \<not> dragging (snd (dragLeaveHandler e4 form3)) \<and>
       \<not> dragging (fst (snd (snd (onArchiveDragDrop props fetch e5 form3 fx)))))"
proof -
  have i: "dragDepth initial_form = 0" "\<not> dragging initial_form"
    by (simp_all add: initial_form_def dragging_def classList_contains_def)
  have n: "dragging (fst (form_run props fetch es (initial_form, fx))) \<longleftrightarrow>
         0 < dragDepth (fst (form_run props fetch es (initial_form, fx)))" if "nested 0 es"
    using nested_invariant[of initial_form es props fetch fx] that i by simp
  let ?form3 = "fst (form_run props fetch [DragEnter e1, DragEnter e2, DragLeave e3]
                       (initial_form, fx))"
  have d3: "dragDepth ?form3 = 1"
    by (simp add: form_run_def dragEnterHandler_form dragLeaveHandler_form i)
  have g3: "dragging ?form3"
    using nested_invariant[of initial_form "[DragEnter e1, DragEnter e2, DragLeave e3]"
        props fetch fx] i d3 by simp
  have l3: "\<not> dragging (snd (dragLeaveHandler e4 ?form3))"
    using dragLeaveHandler_form[of e4 ?form3] d3 by simp
  show ?thesis
    using dragEnterHandler_form[of e form] dragLeaveHandler_form[of e form]
      onArchiveDragDrop_form[of props fetch e form fx]
      onArchiveDragDrop_form[of props fetch e5 ?form3 fx] n d3 g3 l3
    by (simp add: Let_def)
qed

theorem drag_indicator_nested_witness:
  "nested 0 [DragEnter (plain_event []), DragEnter (plain_event []), DragLeave (plain_event [])] \<and>
   dragging (fst (form_run carbon_props sample_fetch
      [DragEnter (plain_event []), DragEnter (plain_event []), DragLeave (plain_event [])]
      (initial_form, no_effects))) \<and>
   0 < dragDepth (fst (form_run carbon_props sample_fetch
      [DragEnter (plain_event []), DragEnter (plain_event []), DragLeave (plain_event [])]
      (initial_form, no_effects)))"
proof -
  have h: "nested 0 [DragEnter (plain_event []), DragEnter (plain_event []), DragLeave (plain_event [])]"
    by simp
  show ?thesis
    using h drag_indicator_nested[of "plain_event []" initial_form carbon_props sample_fetch no_effects
        "[DragEnter (plain_event []), DragEnter (plain_event []), DragLeave (plain_event [])]"
        "plain_event []" "plain_event []" "plain_event []" "plain_event []" "plain_event []"]
    by (simp add: Let_def)
qed

text \<open>
  Claim C8 as stated says that the indicator is present exactly while the counter is
  positive.  A drag-leave on the fresh form takes the counter to \<open>-1\<close>; the drag-enter
  that follows takes it to \<open>0\<close> and adds the indicator: the indicator is present with
  the counter at zero.
\<close>

theorem drag_leave_first_counterexample:
  "dragging (fst (form_run carbon_props sample_fetch
      [DragLeave (plain_event []), DragEnter (plain_event [])] (initial_form, no_effects))) \<and>
   dragDepth (fst (form_run carbon_props sample_fetch
      [DragLeave (plain_event []), DragEnter (plain_event [])] (initial_form, no_effects))) = 0"
  by (simp add: form_run_def dragEnterHandler_form dragLeaveHandler_form initial_form_def)

section \<open>Properties of LogTab\<close>

subsection \<open>Line classification\<close>

lemma markupLine_literal:
  "markupLine san tst line pats =
     san (case find (\<lambda>(cls, pattern). tst pattern line) pats of
            Some (cls, pattern) \<Rightarrow>
              ''<span class='' @ [CHR 0x22] @ cls @ [CHR 0x22] @ ''>'' @ line @ ''</span>''
          | None \<Rightarrow> line)
       \<lparr>allowedTags = [''span''], allowedAttributes = [(''span'', [''class''])]\<rparr>"
  by (induction pats)
     (auto simp: ALLOWED_HTML_OPTIONS_def LOG_TEXT_TAG_def span_markup_def)

lemma escaping_sanitizer_no_angle: "no_angle_bracket (escaping_sanitizer m opts)"
  by (induction m) (auto simp: no_angle_bracket_def)

text \<open>
  Claim C3, as the code has it.  \<^verbatim>\<open>markupLine\<close> goes through the patterns in order and
  stops at the first that matches: the markup it builds is the line between
  \<^verbatim>\<open><span class="cls">\<close>, with the class of that pattern, and \<^verbatim>\<open></span>\<close>, and
  this markup is passed to the sanitizer.  When no pattern matches, the line itself is
  passed to the sanitizer: no tag is put around it and no class is assigned.  For the
  component's own patterns the error pattern is tried first, the module pattern second.
  In every case the value returned is a value of the sanitizer under the rule that allows
  the tag \<^verbatim>\<open>span\<close> with the attribute \<^verbatim>\<open>class\<close> and nothing else, so it is valid under
  that rule: whatever holds of every output of the sanitizer under the rule holds of it.
\<close>

theorem markupLine_classifies:
  "markupLine san tst line pats =
     (case find (\<lambda>(cls, pattern). tst pattern line) pats of
        Some (cls, pattern) \<Rightarrow>
          san (''<span class='' @ [CHR 0x22] @ cls @ [CHR 0x22] @ ''>'' @ line @ ''</span>'')
            \<lparr>allowedTags = [''span''], allowedAttributes = [(''span'', [''class''])]\<rparr>
      | None \<Rightarrow>
          san line \<lparr>allowedTags = [''span''], allowedAttributes = [(''span'', [''class''])]\<rparr>) \<and>
   markupLine san tst line (logPatterns_of m) =
     san (if tst LOG_ERROR_REGEX line
          then ''<span class='' @ [CHR 0x22] @ ''invest-log-error'' @ [CHR 0x22] @ ''>'' @ line @
               ''</span>''
          else if tst (RegExp m) line
          then ''<span class='' @ [CHR 0x22] @ ''invest-log-primary'' @ [CHR 0x22] @ ''>'' @ line @
               ''</span>''
          else line)
       \<lparr>allowedTags = [''span''], allowedAttributes = [(''span'', [''class''])]\<rparr> \<and>
   (\<exists>x. markupLine san tst line pats =
          san x \<lparr>allowedTags = [''span''], allowedAttributes = [(''span'', [''class''])]\<rparr>) \<and>
   ((\<forall>x. valid (san x \<lparr>allowedTags = [''span''],
                         allowedAttributes = [(''span'', [''class''])]\<rparr>)) \<longrightarrow>
      valid (markupLine san tst line pats))"
proof -
  let ?opts = "\<lparr>allowedTags = [''span''], allowedAttributes = [(''span'', [''class''])]\<rparr>"
  have o: "ALLOWED_HTML_OPTIONS = ?opts"
    by (simp add: ALLOWED_HTML_OPTIONS_def LOG_TEXT_TAG_def)
  have s: "span_markup cls l = ''<span class='' @ [CHR 0x22] @ cls @ [CHR 0x22] @ ''>'' @ l @ ''</span>''"
    for cls l
    by (simp add: span_markup_def LOG_TEXT_TAG_def)
  have e: "\<exists>x. markupLine san tst line pats = san x ?opts"
    by (induction pats) (auto simp: o)
  then have v: "valid (markupLine san tst line pats)" if "\<forall>x. valid (san x ?opts)"
    using that by metis
  have f: "markupLine san tst line pats =
     (case find (\<lambda>(cls, pattern). tst pattern line) pats of
        Some (cls, pattern) \<Rightarrow>
          san (''<span class='' @ [CHR 0x22] @ cls @ [CHR 0x22] @ ''>'' @ line @ ''</span>'') ?opts
      | None \<Rightarrow> san line ?opts)"
    by (induction pats) (auto simp: o s)
  have l: "markupLine san tst line (logPatterns_of m) =
     san (if tst LOG_ERROR_REGEX line
          then ''<span class='' @ [CHR 0x22] @ ''invest-log-error'' @ [CHR 0x22] @ ''>'' @ line @
               ''</span>''
          else if tst (RegExp m) line
          then ''<span class='' @ [CHR 0x22] @ ''invest-log-primary'' @ [CHR 0x22] @ ''>'' @ line @
               ''</span>''
          else line) ?opts"
    by (simp add: logPatterns_of_def o s)
  show ?thesis using f l e v by blast
qed

theorem markupLine_classifies_witness:
  "(\<forall>x. no_angle_bracket (escaping_sanitizer x
           \<lparr>allowedTags = [''span''], allowedAttributes = [(''span'', [''class''])]\<rparr>)) \<and>
   no_angle_bracket (markupLine escaping_sanitizer stub_test ''a < b''
                       (logPatterns_of ''natcap.invest.carbon'')) \<and>
   markupLine escaping_sanitizer stub_test ''a < b'' (logPatterns_of ''natcap.invest.carbon'') =
     ''a &lt; b''"
proof -
  have h: "\<forall>x. no_angle_bracket (escaping_sanitizer x
           \<lparr>allowedTags = [''span''], allowedAttributes = [(''span'', [''class''])]\<rparr>)"
    by (simp add: escaping_sanitizer_no_angle)
  have r: "markupLine escaping_sanitizer stub_test ''a < b'' (logPatterns_of ''natcap.invest.carbon'') =
     ''a &lt; b''"
    by code_simp
  show ?thesis
    using h r markupLine_classifies[of escaping_sanitizer stub_test "''a < b''"
        "logPatterns_of ''natcap.invest.carbon''" "''natcap.invest.carbon''" no_angle_bracket]
    by blast
qed

text \<open>
  Claim C3 as stated says that a line that matches no pattern yields an unstyled wrapper.
  With a sanitizer that records the markup and the options it is called with, the line
  \<^verbatim>\<open>plain\<close>, which neither pattern matches, reaches the sanitizer as it is: the markup is
  \<^verbatim>\<open>plain\<close>, not a \<^verbatim>\<open>span\<close> around it.
\<close>

theorem markupLine_no_match_counterexample:
  "markupLine (\<lambda>m opts. (m, opts)) stub_test ''plain'' (logPatterns_of ''natcap.invest.carbon'')
     = (''plain'', \<lparr>allowedTags = [''span''], allowedAttributes = [(''span'', [''class''])]\<rparr>) \<and>
   \<not> stub_test LOG_ERROR_REGEX ''plain'' \<and>
   \<not> stub_test (RegExp ''natcap.invest.carbon'') ''plain'' \<and>
   take 5 ''plain'' \<noteq> ''<span''"
  by (simp add: logPatterns_of_def ALLOWED_HTML_OPTIONS_def LOG_TEXT_TAG_def)

subsection \<open>Starting a tail\<close>

lemma tailLogfile_established:
  "tailThrows ev file = None \<Longrightarrow>
   tailLogfile ev file (c, w) =
     (c\<lparr>tail := Some (allocated w)\<rparr>,
      w\<lparr>store := (store w)(allocated w :=
             \<lparr>filename = file, options = tail_options_for (platform ev), watching = True,
              unwatchCalls = 0, markup = Object_assign_empty (logdata c)\<rparr>),
         allocated := allocated w + 1\<rparr>)"
  by (simp add: tailLogfile_def tailLogfile_try_def new_Tail_def)

lemma tailLogfile_failed:
  "tailThrows ev file = Some error \<Longrightarrow>
   tailLogfile ev file (c, w) =
     (c\<lparr>logdata := Some (''Logfile is missing: '' @ EOL ev @ file)\<rparr>,
      w\<lparr>logged := logged w @ [Error (''Not able to read '' @ file), Error (stack error)]\<rparr>)"
  by (simp add: tailLogfile_def tailLogfile_try_def new_Tail_def)

lemma activeTails_established:
  "tailThrows ev file = None \<Longrightarrow>
   activeTails (snd (tailLogfile ev file (c, w))) = activeTails w @ [allocated w]"
proof -
  have "filter (\<lambda>h. h \<noteq> allocated w \<longrightarrow> watching (store w h)) [0..<allocated w] =
        filter (\<lambda>h. watching (store w h)) [0..<allocated w]"
    by (rule filter_cong) auto
  then show ?thesis if "tailThrows ev file = None"
    using that by (simp add: tailLogfile_established activeTails_def)
qed

text \<open>
  When the log file path changes while the tail of the previous path is watching, and the
  new \<^verbatim>\<open>Tail\<close> can be created, \<^verbatim>\<open>componentDidUpdate\<close> adds the new object to the
  watching ones and makes \<^verbatim>\<open>this.tail\<close> refer to it; \<^verbatim>\<open>unwatch()\<close> is not called on
  the previous object, which goes on watching.
\<close>

lemma logfile_change_keeps_old_tail:
  assumes "tail c = Some h" and "h < allocated w" and "watching (store w h)"
    and "logfile props = Some file" and "file \<noteq> []" and "logfile prevProps \<noteq> Some file"
    and "tailThrows ev file = None"
  shows "set (activeTails (snd (componentDidUpdate ev prevProps props (c, w)))) =
           insert (allocated w) (set (activeTails w)) \<and>
         h \<in> set (activeTails w) \<and> h \<noteq> allocated w \<and>
         unwatchCalls (store (snd (componentDidUpdate ev prevProps props (c, w))) h) =
           unwatchCalls (store w h) \<and>
         tail (fst (componentDidUpdate ev prevProps props (c, w))) = Some (allocated w)"
proof -
  have a: "h \<in> set (activeTails w)" using assms(2,3) by (simp add: activeTails_def)
  have "activeTails (snd (tailLogfile ev file (c, w))) = activeTails w @ [allocated w]"
    using assms(7) by (rule activeTails_established)
  moreover have "activeTails (snd (setTimeout_unwatch cw)) = activeTails (snd cw)" for cw
    by (cases cw) (simp add: setTimeout_unwatch_def activeTails_def)
  ultimately have s: "set (activeTails (snd (componentDidUpdate ev prevProps props (c, w)))) =
           insert (allocated w) (set (activeTails w))"
    using assms(4-6) by (simp add: componentDidUpdate_def Let_def)
  have u: "unwatchCalls (store (snd (componentDidUpdate ev prevProps props (c, w))) h) =
           unwatchCalls (store w h)"
    using assms(2,4-7)
    by (simp add: componentDidUpdate_def Let_def tailLogfile_established setTimeout_unwatch_def)
  have t: "tail (fst (componentDidUpdate ev prevProps props (c, w))) = Some (allocated w)"
    using assms(4-7)
    by (simp add: componentDidUpdate_def Let_def tailLogfile_established setTimeout_unwatch_def)
  show ?thesis using a s u t assms(2) by simp
qed

text \<open>
  Claim C1 says that the previous tail is released when the path changes and that one
  active tail remains.  The component is mounted on \<^verbatim>\<open>run1.log\<close> and then updated to
  \<^verbatim>\<open>run2.log\<close>: one tail is watching after the mount, two are watching after the
  update, \<^verbatim>\<open>this.tail\<close> refers to the second, and \<^verbatim>\<open>unwatch()\<close> was never called on
  the first.
\<close>

theorem logfile_change_leaks_tail:
  "(let props1 = run_props ''running'' ''run1.log'';
        props2 = run_props ''running'' ''run2.log'';
        mounted = componentDidMount linux_env props1 (constructor props1, empty_world);
        updated = componentDidUpdate linux_env props1 props2 mounted
    in activeTails (snd mounted) = [0] \<and> tail (fst mounted) = Some 0 \<and>
       activeTails (snd updated) = [0, 1] \<and> tail (fst updated) = Some 1 \<and>
       filename (store (snd updated) 0) = ''run1.log'' \<and>
       unwatchCalls (store (snd updated) 0) = 0 \<and>
       filename (store (snd updated) 1) = ''run2.log'')"
  by code_simp

text \<open>
  Claim C6.  When \<^verbatim>\<open>new Tail\<close> throws, the \<^verbatim>\<open>try\<close> block of \<^verbatim>\<open>tailLogfile\<close> ends
  with that exception and the \<^verbatim>\<open>catch\<close> clause handles it: \<^verbatim>\<open>tailLogfile\<close> returns
  normally, with the buffer set to the text \<^verbatim>\<open>Logfile is missing:\<close>, the end-of-line
  sequence and the path, and with two error entries added to the logger (the path that
  could not be read, and the stack of the exception).  No watch is created and
  \<^verbatim>\<open>this.tail\<close> keeps its value.  \<^verbatim>\<open>componentDidMount\<close> with that path returns the
  same state.
\<close>

theorem tailLogfile_missing_file:
  assumes "tailThrows ev file = Some error"
  shows "tailLogfile_try ev file (c, w) = Inl error \<and>
         logdata (fst (tailLogfile ev file (c, w))) =
           Some (''Logfile is missing: '' @ EOL ev @ file) \<and>
         logged (snd (tailLogfile ev file (c, w))) =
           logged w @ [Error (''Not able to read '' @ file), Error (stack error)] \<and>
         tail (fst (tailLogfile ev file (c, w))) = tail c \<and>
         store (snd (tailLogfile ev file (c, w))) = store w \<and>
         allocated (snd (tailLogfile ev file (c, w))) = allocated w \<and>
         componentDidMount ev (props\<lparr>logfile := Some file\<rparr>) (c, w) =
           (if file = [] then (c, w) else tailLogfile ev file (c, w))"
  using assms
  by (simp add: tailLogfile_failed tailLogfile_try_def new_Tail_def componentDidMount_def)

theorem tailLogfile_missing_file_witness:
  "(let cw = componentDidMount linux_env (run_props ''running'' ''missing.log'')
               (constructor (run_props ''running'' ''missing.log''), empty_world)
    in logdata (fst cw) = Some (''Logfile is missing: '' @ [CHR 0x0A] @ ''missing.log'') \<and>
       logged (snd cw) = [Error ''Not able to read missing.log'', Error ''Error: ENOENT''] \<and>
       tail (fst cw) = None \<and> allocated (snd cw) = 0)"
proof -
  have h: "tailThrows linux_env ''missing.log'' = Some \<lparr>message = ''ENOENT'', stack = ''Error: ENOENT''\<rparr>"
    by (simp add: linux_env_def)
  show ?thesis
    using tailLogfile_missing_file[OF h, of "constructor (run_props ''running'' ''missing.log'')"
        empty_world "run_props ''running'' ''missing.log''"]
    by (simp add: run_props_def linux_env_def constructor_def empty_world_def Let_def)
qed

subsection \<open>The buffer\<close>

lemma toPrimitive_Object_assign_empty: "toPrimitive (Object_assign_empty x) = []"
  by (simp add: Object_assign_empty_def)

lemma onLine_markup:
  "markup (store (snd (onLine ev h d (c, w))) h) =
     Primitive (toPrimitive (markup (store w h)) @
                markupLine (sanitizeHtml ev) (test ev) (d @ EOL ev) (logPatterns c))"
  by (simp add: onLine_def Let_def plus_assign_def)

lemma onLine_logdata:
  "logdata (fst (onLine ev h d (c, w))) =
     Some (toPrimitive (markup (store w h)) @
           markupLine (sanitizeHtml ev) (test ev) (d @ EOL ev) (logPatterns c))"
  by (simp add: onLine_def Let_def plus_assign_def)

lemma onLine_logPatterns: "logPatterns (fst (onLine ev h d (c, w))) = logPatterns c"
  by (simp add: onLine_def Let_def)

lemma deliver_Cons: "deliver ev h (d # ds) cw = deliver ev h ds (onLine ev h d cw)"
  by (simp add: deliver_def)

lemma deliver_state:
  "logPatterns (fst (deliver ev h ds (c, w))) = logPatterns c \<and>
   toPrimitive (markup (store (snd (deliver ev h ds (c, w))) h)) =
     toPrimitive (markup (store w h)) @
     concat (map (\<lambda>d. markupLine (sanitizeHtml ev) (test ev) (d @ EOL ev) (logPatterns c)) ds) \<and>
   (ds \<noteq> [] \<longrightarrow> logdata (fst (deliver ev h ds (c, w))) =
      Some (toPrimitive (markup (store (snd (deliver ev h ds (c, w))) h))))"
proof (induction ds arbitrary: c w)
  case Nil
  show ?case by (simp add: deliver_def)
next
  case (Cons d ds)
  obtain c' w' where s: "onLine ev h d (c, w) = (c', w')"
    by (cases "onLine ev h d (c, w)")
  have p: "logPatterns c' = logPatterns c"
    using onLine_logPatterns[of ev h d c w] s by simp
  have m: "toPrimitive (markup (store w' h)) =
      toPrimitive (markup (store w h)) @
      markupLine (sanitizeHtml ev) (test ev) (d @ EOL ev) (logPatterns c)"
    using onLine_markup[of ev h d c w] s by simp
  have l: "logdata c' = Some (toPrimitive (markup (store w' h)))"
    using onLine_logdata[of ev h d c w] s m by simp
  show ?case
  proof (cases "ds = []")
    case True
    then show ?thesis using s p m l by (simp add: deliver_def)
  next
    case False
    then show ?thesis using Cons.IH[of c' w'] s p m by (simp add: deliver_Cons)
  qed
qed

text \<open>
  Claim C5.  After \<^verbatim>\<open>tailLogfile\<close> has created a tail, let that tail deliver the lines
  \<open>ds\<close> (at least one), in this order.  The buffer \<^verbatim>\<open>state.logdata\<close> is then the
  concatenation, in the order of delivery, of one piece for each line: the line with the
  end-of-line sequence appended, wrapped in \<^verbatim>\<open><span class="cls">\<close> and \<^verbatim>\<open></span>\<close> for
  the class of the first pattern that matches it, or left bare when none matches, and then
  sanitized under the rule that allows \<^verbatim>\<open>span\<close> with \<^verbatim>\<open>class\<close>.  Every line is
  classified and sanitized on its own.  When the tail delivers further lines \<open>rest\<close>, the
  buffer is the previous buffer followed by the pieces of the new lines: it only grows at
  its end.
\<close>

theorem tail_buffer_in_delivery_order:
  assumes "tailThrows ev file = None" and "ds \<noteq> []"
  shows "logdata (fst (deliver ev (allocated w) ds (tailLogfile ev file (c, w)))) =
           Some (concat (map (\<lambda>d.
             sanitizeHtml ev
               (case find (\<lambda>(cls, pattern). test ev pattern (d @ EOL ev)) (logPatterns c) of
                  Some (cls, pattern) \<Rightarrow>
                    ''<span class='' @ [CHR 0x22] @ cls @ [CHR 0x22] @ ''>'' @ (d @ EOL ev) @
                    ''</span>''
                | None \<Rightarrow> d @ EOL ev)
               \<lparr>allowedTags = [''span''], allowedAttributes = [(''span'', [''class''])]\<rparr>) ds)) \<and>
         logdata (fst (deliver ev (allocated w) (ds @ rest) (tailLogfile ev file (c, w)))) =
           Some (the (logdata (fst (deliver ev (allocated w) ds (tailLogfile ev file (c, w))))) @
                 concat (map (\<lambda>d.
                   sanitizeHtml ev
                     (case find (\<lambda>(cls, pattern). test ev pattern (d @ EOL ev)) (logPatterns c) of
                        Some (cls, pattern) \<Rightarrow>
                          ''<span class='' @ [CHR 0x22] @ cls @ [CHR 0x22] @ ''>'' @ (d @ EOL ev) @
                          ''</span>''
                      | None \<Rightarrow> d @ EOL ev)
                     \<lparr>allowedTags = [''span''], allowedAttributes = [(''span'', [''class''])]\<rparr>)
                   rest))"
proof -
  let ?f = "\<lambda>d. markupLine (sanitizeHtml ev) (test ev) (d @ EOL ev) (logPatterns c)"
  obtain c0 w0 where s: "tailLogfile ev file (c, w) = (c0, w0)"
    by (cases "tailLogfile ev file (c, w)")
  have p0: "logPatterns c0 = logPatterns c"
    and m0: "toPrimitive (markup (store w0 (allocated w))) = []"
    using s assms(1) by (auto simp: tailLogfile_established toPrimitive_Object_assign_empty)
  have a: "logdata (fst (deliver ev (allocated w) xs (c0, w0))) = Some (concat (map ?f xs))"
    if "xs \<noteq> []" for xs
    using deliver_state[of ev "allocated w" xs c0 w0] that p0 m0 by simp
  have "ds @ rest \<noteq> []" using assms(2) by simp
  then have "logdata (fst (deliver ev (allocated w) ds (tailLogfile ev file (c, w)))) =
           Some (concat (map ?f ds)) \<and>
         logdata (fst (deliver ev (allocated w) (ds @ rest) (tailLogfile ev file (c, w)))) =
           Some (the (logdata (fst (deliver ev (allocated w) ds (tailLogfile ev file (c, w))))) @
                 concat (map ?f rest))"
    using a[of ds] a[of "ds @ rest"] assms(2) s by simp
  then show ?thesis
    unfolding markupLine_literal[of "sanitizeHtml ev" "test ev" _ "logPatterns c"] by simp
qed

theorem tail_buffer_in_delivery_order_witness:
  "logdata (fst (deliver linux_env 0 [''a'', ''ERROR b'']
      (componentDidMount linux_env (run_props ''running'' ''run1.log'')
         (constructor (run_props ''running'' ''run1.log''), empty_world)))) =
   Some (''a'' @ [CHR 0x0A] @
         ''<span class='' @ [CHR 0x22] @ ''invest-log-error'' @ [CHR 0x22] @ ''>ERROR b'' @
         [CHR 0x0A] @ ''</span>'')"
proof -
  let ?c = "constructor (run_props ''running'' ''run1.log'')"
  have h1: "tailThrows linux_env ''run1.log'' = None" by (simp add: linux_env_def)
  have h2: "[''a'', ''ERROR b''] \<noteq> []" by simp
  have m: "componentDidMount linux_env (run_props ''running'' ''run1.log'') (?c, empty_world) =
           tailLogfile linux_env ''run1.log'' (?c, empty_world)"
    by (simp add: componentDidMount_def run_props_def)
  have a: "allocated empty_world = 0" by (simp add: empty_world_def)
  have f: "concat (map (\<lambda>d.
             sanitizeHtml linux_env
               (case find (\<lambda>(cls, pattern). test linux_env pattern (d @ EOL linux_env))
                       (logPatterns ?c) of
                  Some (cls, pattern) \<Rightarrow>
                    ''<span class='' @ [CHR 0x22] @ cls @ [CHR 0x22] @ ''>'' @ (d @ EOL linux_env) @
                    ''</span>''
                | None \<Rightarrow> d @ EOL linux_env)
               \<lparr>allowedTags = [''span''], allowedAttributes = [(''span'', [''class''])]\<rparr>)
             [''a'', ''ERROR b'']) =
           ''a'' @ [CHR 0x0A] @
           ''<span class='' @ [CHR 0x22] @ ''invest-log-error'' @ [CHR 0x22] @ ''>ERROR b'' @
           [CHR 0x0A] @ ''</span>''"
    by code_simp
  show ?thesis
    using tail_buffer_in_delivery_order[OF h1 h2, of empty_world ?c "[]"] m a f by simp
qed

subsection \<open>Stopping a tail\<close>

lemma unwatchLogfile_try_eq:
  "unwatchLogfile_try ev h w =
     (unwatchThrows ev (store w h),
      w\<lparr>logged := logged w @ [Debug (''unwatching file: '' @ filename (store w h))],
        store := (store w)(h := (store w h)
          \<lparr>unwatchCalls := unwatchCalls (store w h) + 1,
           watching := (watching (store w h) \<and> unwatchThrows ev (store w h) \<noteq> None)\<rparr>)\<rparr>)"
  by (cases "unwatchThrows ev (store w h)")
     (simp_all add: unwatchLogfile_try_def Tail_unwatch_def Let_def)

lemma unwatchLogfile_Some:
  "tail c = Some h \<Longrightarrow>
   unwatchLogfile ev (c, w) =
     (c, w\<lparr>logged := logged w @ [Debug (''unwatching file: '' @ filename (store w h))] @
                      (case unwatchThrows ev (store w h) of
                         None \<Rightarrow> [] | Some error \<Rightarrow> [Error (stack error)]),
           store := (store w)(h := (store w h)
             \<lparr>unwatchCalls := unwatchCalls (store w h) + 1,
              watching := (watching (store w h) \<and> unwatchThrows ev (store w h) \<noteq> None)\<rparr>)\<rparr>)"
  by (cases "unwatchThrows ev (store w h)")
     (simp_all add: unwatchLogfile_def unwatchLogfile_try_eq)

lemma unwatchLogfile_None: "tail c = None \<Longrightarrow> unwatchLogfile ev (c, w) = (c, w)"
  by (simp add: unwatchLogfile_def)

text \<open>
  \<^verbatim>\<open>this.tail\<close> is not cleared by a teardown, so every request with a tail calls
  \<^verbatim>\<open>unwatch()\<close> on the object again.
\<close>

lemma unwatchLogfile_calls:
  "tail c = Some h \<Longrightarrow>
   unwatchCalls (store (snd (unwatchLogfile ev (c, w))) h) = unwatchCalls (store w h) + 1"
  by (simp add: unwatchLogfile_Some)

text \<open>
  A teardown request on a tail that is not watching changes neither the component nor the
  watch of any \<^verbatim>\<open>Tail\<close> object.
\<close>

lemma unwatchLogfile_released:
  assumes "tail c = Some h" and "\<not> watching (store w h)"
  shows "fst (unwatchLogfile ev (c, w)) = c \<and>
         (\<forall>a. watching (store (snd (unwatchLogfile ev (c, w))) a) = watching (store w a)) \<and>
         allocated (snd (unwatchLogfile ev (c, w))) = allocated w \<and>
         timers (snd (unwatchLogfile ev (c, w))) = timers w \<and>
         activeTails (snd (unwatchLogfile ev (c, w))) = activeTails w"
proof -
  have w: "\<forall>a. watching (store (snd (unwatchLogfile ev (c, w))) a) = watching (store w a)"
    using assms by (simp add: unwatchLogfile_Some)
  have al: "allocated (snd (unwatchLogfile ev (c, w))) = allocated w"
    using assms by (simp add: unwatchLogfile_Some)
  have "activeTails (snd (unwatchLogfile ev (c, w))) = activeTails w"
    unfolding activeTails_def al using w by simp
  then show ?thesis using assms w al by (simp add: unwatchLogfile_Some)
qed

text \<open>
  Claim C4.  A teardown request leaves the component as it was, and does nothing when
  there is no tail.  With a tail, the \<^verbatim>\<open>try\<close> block ends with the exception that
  \<^verbatim>\<open>unwatch()\<close> throws, if it throws one, and \<^verbatim>\<open>unwatchLogfile\<close> still returns
  normally: the logger receives the debug message and, after an exception, the stack of
  the exception.  The request stops the watch of its own tail when \<^verbatim>\<open>unwatch()\<close> does
  not throw and changes the watch of no other object.  Once the tail is not watching, a
  second request releases nothing: the component, the watch of every object and the list
  of active tails are as the first request left them, and an exception of the repeated
  \<^verbatim>\<open>unwatch()\<close> is again caught and logged.  The same holds when the first request is
  the unmount and the second is the delayed timer that was still pending.
\<close>

theorem unwatchLogfile_idempotent:
  "fst (unwatchLogfile ev (c, w)) = c \<and>
   (tail c = None \<longrightarrow> unwatchLogfile ev (c, w) = (c, w)) \<and>
   (tail c = Some h \<longrightarrow>
      fst (unwatchLogfile_try ev h w) = unwatchThrows ev (store w h) \<and>
      logged (snd (unwatchLogfile ev (c, w))) =
        logged w @ [Debug (''unwatching file: '' @ filename (store w h))] @
        (case unwatchThrows ev (store w h) of
           None \<Rightarrow> [] | Some error \<Rightarrow> [Error (stack error)]) \<and>
      (\<forall>a. watching (store (snd (unwatchLogfile ev (c, w))) a) =
           (watching (store w a) \<and> (a = h \<longrightarrow> unwatchThrows ev (store w h) \<noteq> None))) \<and>
      (\<not> watching (store (snd (unwatchLogfile ev (c, w))) h) \<longrightarrow>
         fst (unwatchLogfile ev (unwatchLogfile ev (c, w))) = c \<and>
         (\<forall>a. watching (store (snd (unwatchLogfile ev (unwatchLogfile ev (c, w)))) a) =
              watching (store (snd (unwatchLogfile ev (c, w))) a)) \<and>
         activeTails (snd (unwatchLogfile ev (unwatchLogfile ev (c, w)))) =
           activeTails (snd (unwatchLogfile ev (c, w))) \<and>
         logged (snd (unwatchLogfile ev (unwatchLogfile ev (c, w)))) =
           logged (snd (unwatchLogfile ev (c, w))) @
           [Debug (''unwatching file: '' @ filename (store w h))] @
           (case unwatchThrows ev (store (snd (unwatchLogfile ev (c, w))) h) of
              None \<Rightarrow> [] | Some error \<Rightarrow> [Error (stack error)])) \<and>
      (\<not> watching (store (snd (componentWillUnmount ev (c, w))) h) \<and> 0 < timers w \<longrightarrow>
         fst (timerFires ev (componentWillUnmount ev (c, w))) = c \<and>
         activeTails (snd (timerFires ev (componentWillUnmount ev (c, w)))) =
           activeTails (snd (componentWillUnmount ev (c, w))) \<and>
         timers (snd (timerFires ev (componentWillUnmount ev (c, w)))) = timers w - 1))"
proof -
  have 1: "fst (unwatchLogfile ev (c, w)) = c"
    by (cases "tail c") (simp_all add: unwatchLogfile_None unwatchLogfile_Some)
  have 2: "unwatchLogfile ev (c, w) = (c, w)" if "tail c = None"
    using that by (rule unwatchLogfile_None)
  have 3: "fst (unwatchLogfile_try ev h w) = unwatchThrows ev (store w h)"
    by (simp add: unwatchLogfile_try_eq)
  have 4: "logged (snd (unwatchLogfile ev (c, w))) =
        logged w @ [Debug (''unwatching file: '' @ filename (store w h))] @
        (case unwatchThrows ev (store w h) of
           None \<Rightarrow> [] | Some error \<Rightarrow> [Error (stack error)])" if "tail c = Some h"
    using that by (simp add: unwatchLogfile_Some)
  have 5: "\<forall>a. watching (store (snd (unwatchLogfile ev (c, w))) a) =
           (watching (store w a) \<and> (a = h \<longrightarrow> unwatchThrows ev (store w h) \<noteq> None))"
    if "tail c = Some h"
    using that by (auto simp add: unwatchLogfile_Some)
  obtain w' where f: "unwatchLogfile ev (c, w) = (c, w')"
    using 1 by (cases "unwatchLogfile ev (c, w)") simp
  have fn: "filename (store w' h) = filename (store w h)" and tm: "timers w' = timers w"
    if "tail c = Some h"
    using that f by (auto simp add: unwatchLogfile_Some)
  have 6: "fst (unwatchLogfile ev (c, w')) = c \<and>
         (\<forall>a. watching (store (snd (unwatchLogfile ev (c, w'))) a) = watching (store w' a)) \<and>
         activeTails (snd (unwatchLogfile ev (c, w'))) = activeTails w' \<and>
         logged (snd (unwatchLogfile ev (c, w'))) =
           logged w' @ [Debug (''unwatching file: '' @ filename (store w h))] @
           (case unwatchThrows ev (store w' h) of
              None \<Rightarrow> [] | Some error \<Rightarrow> [Error (stack error)])"
    if "tail c = Some h" "\<not> watching (store w' h)"
    using unwatchLogfile_released[OF that, of ev] fn[OF that(1)] that(1)
    by (simp add: unwatchLogfile_Some)
  have 7: "fst (timerFires ev (c, w')) = c \<and>
         activeTails (snd (timerFires ev (c, w'))) = activeTails w' \<and>
         timers (snd (timerFires ev (c, w'))) = timers w - 1"
    if "tail c = Some h" "\<not> watching (store w' h)" "0 < timers w"
  proof -
    have a: "timerFires ev (c, w') = unwatchLogfile ev (c, w'\<lparr>timers := timers w' - 1\<rparr>)"
      using that(3) tm[OF that(1)] by (simp add: timerFires_def)
    have b: "\<not> watching (store (w'\<lparr>timers := timers w' - 1\<rparr>) h)" using that(2) by simp
    have "activeTails (w'\<lparr>timers := timers w' - 1\<rparr>) = activeTails w'"
      by (simp add: activeTails_def)
    then show ?thesis
      using unwatchLogfile_released[OF that(1) b, of ev] a tm[OF that(1)] by simp
  qed
  show ?thesis
    using 1 2 3 4 5 6 7 unfolding componentWillUnmount_def f by simp
qed

theorem unwatchLogfile_idempotent_witness:
  "tail (fst finished_run) = Some 0 \<and>
   timers (snd finished_run) = 1 \<and>
   activeTails (snd finished_run) = [0] \<and>
   activeTails (snd (componentWillUnmount strict_env finished_run)) = [] \<and>
   activeTails (snd (timerFires strict_env (componentWillUnmount strict_env finished_run))) = [] \<and>
   fst (timerFires strict_env (componentWillUnmount strict_env finished_run)) = fst finished_run \<and>
   timers (snd (timerFires strict_env (componentWillUnmount strict_env finished_run))) = 0 \<and>
   logged (snd (timerFires strict_env (componentWillUnmount strict_env finished_run))) =
     [Debug ''unwatching file: run1.log'', Debug ''unwatching file: run1.log'',
      Error ''Error: not watching'']"
proof -
  obtain c w where cw: "finished_run = (c, w)" by (cases finished_run)
  have t: "tail (fst finished_run) = Some 0" by code_simp
  have k: "timers (snd finished_run) = 1" by code_simp
  have a0: "activeTails (snd finished_run) = [0]" by code_simp
  have a1: "activeTails (snd (componentWillUnmount strict_env finished_run)) = []" by code_simp
  have n: "\<not> watching (store (snd (componentWillUnmount strict_env finished_run)) 0)"
    by code_simp
  have l: "logged (snd (timerFires strict_env (componentWillUnmount strict_env finished_run))) =
     [Debug ''unwatching file: run1.log'', Debug ''unwatching file: run1.log'',
      Error ''Error: not watching'']"
    by code_simp
  have "fst (timerFires strict_env (componentWillUnmount strict_env (c, w))) = c \<and>
        activeTails (snd (timerFires strict_env (componentWillUnmount strict_env (c, w)))) =
          activeTails (snd (componentWillUnmount strict_env (c, w))) \<and>
        timers (snd (timerFires strict_env (componentWillUnmount strict_env (c, w)))) =
          timers w - 1"
    using unwatchLogfile_idempotent[of strict_env c w 0] t k n unfolding cw by simp
  then show ?thesis using t k a0 a1 l unfolding cw by simp
qed

subsection \<open>The status banner\<close>

text \<open>
  Claim C9.  The banner does not depend on the state of the component, and depends on the
  props only through \<^verbatim>\<open>jobStatus\<close> and \<^verbatim>\<open>finalTraceback\<close>.  For \<^verbatim>\<open>running\<close> it is
  an alert that holds the Cancel button and nothing else; for \<^verbatim>\<open>error\<close> the final
  traceback followed by the Open Workspace button; for \<^verbatim>\<open>success\<close> the text
  \<^verbatim>\<open>Model Complete\<close> followed by the Open Workspace button; for every other status
  there is no banner.  The Open Workspace button is disabled exactly when the status is
  \<^verbatim>\<open>running\<close>.
\<close>

theorem render_banner:
  "banner (render props c) = banner (render props c') \<and>
   banner (render (props\<lparr>jobStatus := Some ''running''\<rparr>) c) =
     Some (Alert ''secondary'' [Button ''outline-dark'' TerminateInvestProcess False ''Cancel Run'']) \<and>
   banner (render (props\<lparr>jobStatus := Some ''error'', finalTraceback := Some t\<rparr>) c) =
     Some (Alert ''danger'' [Text t, Button ''outline-dark'' HandleOpenWorkspace False ''Open Workspace'']) \<and>
   banner (render (props\<lparr>jobStatus := Some ''success''\<rparr>) c) =
     Some (Alert ''success'' [Text ''Model Complete'',
                              Button ''outline-dark'' HandleOpenWorkspace False ''Open Workspace'']) \<and>
   (jobStatus props \<noteq> Some ''running'' \<and> jobStatus props \<noteq> Some ''error'' \<and>
    jobStatus props \<noteq> Some ''success'' \<longrightarrow> banner (render props c) = None) \<and>
   WorkspaceButton props =
     Button ''outline-dark'' HandleOpenWorkspace (jobStatus props = Some ''running'') ''Open Workspace'' \<and>
   (jobStatus props = jobStatus props' \<and> finalTraceback props = finalTraceback props' \<longrightarrow>
      banner (render props c) = banner (render props' c'))"
  by (simp add: render_def WorkspaceButton_def CancelButton_def Let_def)

theorem render_banner_witness:
  "banner (render (run_props ''idle'' ''run1.log'') (constructor (run_props ''idle'' ''run1.log''))) = None \<and>
   banner (render (run_props ''running'' ''run1.log'') (constructor (run_props ''running'' ''run1.log''))) =
   banner (render (run_props ''running'' ''run2.log'') ((constructor (run_props ''running'' ''run1.log''))\<lparr>logdata := Some ''x''\<rparr>))"
proof -
  have a: "jobStatus (run_props ''idle'' ''run1.log'') \<noteq> Some ''running'' \<and>
           jobStatus (run_props ''idle'' ''run1.log'') \<noteq> Some ''error'' \<and>
           jobStatus (run_props ''idle'' ''run1.log'') \<noteq> Some ''success''"
    by (simp add: run_props_def)
  have b: "jobStatus (run_props ''running'' ''run1.log'') = jobStatus (run_props ''running'' ''run2.log'') \<and>
           finalTraceback (run_props ''running'' ''run1.log'') = finalTraceback (run_props ''running'' ''run2.log'')"
    by (simp add: run_props_def)
  show ?thesis
    using a b
      render_banner[of "run_props ''idle'' ''run1.log''" "constructor (run_props ''idle'' ''run1.log'')"]
      render_banner[of "run_props ''running'' ''run1.log''" "constructor (run_props ''running'' ''run1.log'')"
        "(constructor (run_props ''running'' ''run1.log''))\<lparr>logdata := Some ''x''\<rparr>" _ "run_props ''running'' ''run2.log''"]
    by blast
qed

end
